theory Spec2Isabelle
  imports Complex_Main "HOL-Library.Multiset" "HOL-Library.Sublist"
begin

section \<open>Data model\<close>

text \<open>
  The script \<^verbatim>\<open>basic_recommender.py\<close> works on two pandas tables, \<^verbatim>\<open>movies\<close> and
  \<^verbatim>\<open>ratings\<close>. A table is modelled as the list of its rows, in row order; the row index
  that pandas keeps beside the rows is not modelled. Python strings are modelled as
  \<^typ>\<open>string\<close>, one \<^typ>\<open>char\<close> per code point, so only code points below 256 occur.
  Exceptions are values of \<open>error\<close>; a function that can raise returns \<open>error + 'a\<close>.
\<close>

datatype error =
    NoMatchError      \<comment> \<open>\<^verbatim>\<open>ValueError("No movies match that genre/year combination.")\<close>\<close>
  | AttributeError    \<comment> \<open>the accessor \<^verbatim>\<open>.str\<close> on a column that does not hold strings\<close>
  | PatternError      \<comment> \<open>\<^verbatim>\<open>re.error\<close>: the genre does not compile as a regular expression\<close>
  | SampleSizeError   \<comment> \<open>\<^verbatim>\<open>ValueError\<close> of \<^verbatim>\<open>DataFrame.sample\<close>\<close>
  | EOFError          \<comment> \<open>\<^verbatim>\<open>input()\<close> with no line left to read\<close>
  | FitError          \<comment> \<open>any exception of the library while it builds and fits the model\<close>
  | IntParseError     \<comment> \<open>\<^verbatim>\<open>ValueError\<close> of \<^verbatim>\<open>int(...)\<close>\<close>
  | IndexError        \<comment> \<open>\<^verbatim>\<open>.values[0]\<close> on an empty selection\<close>

text \<open>
  A Python float is a finite number, an infinity or NaN. Only order comparisons of floats
  against the constants \<open>0.5\<close> and \<open>3\<close> occur in the script, and on finite floats they
  agree with the comparison of the numbers they denote.
\<close>

datatype pyfloat = Finite real | PosInf | NegInf | NaN

fun float_ge :: "pyfloat \<Rightarrow> real \<Rightarrow> bool" where
  "float_ge (Finite x) c = (c \<le> x)"
| "float_ge PosInf c = True"
| "float_ge NegInf c = False"
| "float_ge NaN c = False"

record movie =
  movieId :: int
  title :: string
  genres :: "string option"   \<comment> \<open>\<open>None\<close> is a missing cell (NaN)\<close>
  year :: "int option"        \<comment> \<open>\<open>None\<close> is a missing cell (NaN)\<close>

record rating =
  r_userId :: int
  r_movieId :: int
  r_rating :: pyfloat

section \<open>Decimal numerals: \<^verbatim>\<open>int(...)\<close> and \<^verbatim>\<open>str(...)\<close>\<close>

definition is_digit :: "char \<Rightarrow> bool" where
  "is_digit c \<longleftrightarrow> c \<in> set ''0123456789''"

definition digit_val :: "char \<Rightarrow> nat" where
  "digit_val c = of_char c - 48"

definition digits_val :: "string \<Rightarrow> nat" where
  "digits_val ds = foldl (\<lambda>a c. 10 * a + digit_val c) 0 ds"

definition digit_char :: "nat \<Rightarrow> char" where
  "digit_char d = char_of (48 + d)"

fun digits_of :: "nat \<Rightarrow> string" where
  "digits_of n = (if n < 10 then [digit_char n] else digits_of (n div 10) @ [digit_char (n mod 10)])"

declare digits_of.simps [simp del]

definition py_str :: "int \<Rightarrow> string" where
  \<comment> \<open>\<^verbatim>\<open>str(i)\<close> of an integer\<close>
  "py_str i = (if i < 0 then CHR ''-'' # digits_of (nat (- i)) else digits_of (nat i))"

definition py_int :: "string \<Rightarrow> error + int" where
  \<comment> \<open>\<^verbatim>\<open>int(s)\<close> on an optional sign followed by decimal digits. The other forms Python
      reads (blanks around the numeral, underscores between digits) are never produced by
      \<^verbatim>\<open>str\<close> and are not modelled.\<close>
  "py_int s =
     (case s of
        [] \<Rightarrow> Inl IntParseError
      | c # ds \<Rightarrow>
          if c = CHR ''-'' \<or> c = CHR ''+'' then
            (if ds \<noteq> [] \<and> list_all is_digit ds
             then Inr (if c = CHR ''-'' then - int (digits_val ds) else int (digits_val ds))
             else Inl IntParseError)
          else if list_all is_digit s then Inr (int (digits_val s))
          else Inl IntParseError)"

section \<open>Loading the catalog\<close>

text \<open>
  \<^verbatim>\<open>re.search(r"\((\d{4})\)", title)\<close> tries the pattern at every position of the title
  from the left and stops at the first position where it matches. The pattern has no
  alternative and no repetition of variable length, so at one position it matches in at
  most one way: an opening parenthesis, four digits, a closing parenthesis. Among the code
  points below 256 the class \<^verbatim>\<open>\d\<close> holds the ten ASCII digits only.
\<close>

definition match_year_at :: "string \<Rightarrow> int option" where
  "match_year_at s =
     (if 6 \<le> length s \<and> hd s = CHR ''('' \<and> list_all is_digit (take 4 (tl s)) \<and> s ! 5 = CHR '')''
      then Some (int (digits_val (take 4 (tl s))))
      else None)"

fun extract_year :: "string \<Rightarrow> int option" where
  "extract_year [] = None"
| "extract_year (c # cs) =
     (case match_year_at (c # cs) of
        Some y \<Rightarrow> Some y
      | None \<Rightarrow> extract_year cs)"

definition year_literal :: "string \<Rightarrow> bool" where
  \<comment> \<open>the text between the parentheses of a match: exactly four digits\<close>
  "year_literal d \<longleftrightarrow> length d = 4 \<and> list_all is_digit d"

definition load_movies :: "(int \<times> string \<times> string option) list \<Rightarrow> movie list" where
  \<comment> \<open>\<^verbatim>\<open>movies["year"] = movies["title"].apply(extract_year)\<close>\<close>
  "load_movies rows =
     map (\<lambda>(i, t, g). \<lparr>movieId = i, title = t, genres = g, year = extract_year t\<rparr>) rows"

section \<open>Matching a genre\<close>

text \<open>
  \<^verbatim>\<open>Series.str.contains(genre, case=False, na=False)\<close> keeps the library's default
  \<^verbatim>\<open>regex=True\<close>: the genre is compiled as a regular expression with the flag
  \<^verbatim>\<open>re.IGNORECASE\<close>, a cell matches when \<^verbatim>\<open>search\<close> finds the expression somewhere in
  it, and a missing cell counts as no match.

  Ignoring case compares the lower-case forms of two characters. Among the code points
  below 256 the letters with a lower-case form are \<open>A\<close> to \<open>Z\<close> and \<open>0xC0\<close> to \<open>0xDE\<close>
  without the multiplication sign \<open>0xD7\<close>; the lower-case form lies 32 code points higher.
\<close>

definition lower :: "char \<Rightarrow> char" where
  "lower c =
     (let n = (of_char c :: nat)
      in if (65 \<le> n \<and> n \<le> 90) \<or> (192 \<le> n \<and> n \<le> 222 \<and> n \<noteq> 215) then char_of (n + 32) else c)"

definition ci_infix :: "string \<Rightarrow> string \<Rightarrow> bool" where
  \<comment> \<open>the first string occurs in the second as a contiguous substring, ignoring case\<close>
  "ci_infix p s \<longleftrightarrow> sublist (map lower p) (map lower s)"

definition special_chars :: "char list" where
  \<comment> \<open>the characters with a meaning of their own in a regular expression;
      \<open>CHR 0x5C\<close> is the backslash\<close>
  "special_chars = ''.^$*+?{}[]|()'' @ [CHR 0x5C]"

definition plain :: "string \<Rightarrow> bool" where
  "plain s \<longleftrightarrow> list_all (\<lambda>c. c \<notin> set special_chars) s"

fun split_bar :: "string \<Rightarrow> string list" where
  "split_bar [] = [[]]"
| "split_bar (c # cs) =
     (if c = CHR ''|'' then [] # split_bar cs
      else (case split_bar cs of [] \<Rightarrow> [[c]] | a # as \<Rightarrow> (c # a) # as))"

type_synonym regex_engine = "string \<Rightarrow> (string \<Rightarrow> bool) option"

text \<open>
  An expression whose only special character is the bar is an alternation of plain
  strings, and it is found in a cell exactly when one of the alternatives occurs in the
  cell. Every other expression is left to \<open>engine\<close>, which stands for the rest of Python's
  \<^verbatim>\<open>re\<close> module: \<open>None\<close> when the expression does not compile, otherwise the test
  \<^verbatim>\<open>search(...) is not None\<close>.
\<close>

definition re_compile :: "regex_engine \<Rightarrow> string \<Rightarrow> (string \<Rightarrow> bool) option" where
  "re_compile engine pat =
     (if list_all plain (split_bar pat)
      then Some (\<lambda>s. list_ex (\<lambda>a. ci_infix a s) (split_bar pat))
      else engine pat)"

text \<open>
  The accessor \<^verbatim>\<open>.str\<close> is taken before the expression is compiled, and it raises
  \<^verbatim>\<open>AttributeError\<close> on a column that does not hold strings. Read from the file, the
  column of genres holds floats exactly when the table has rows and every cell of the
  column is missing; selecting rows of the table keeps the type of the column.
\<close>

definition genres_not_strings :: "movie list \<Rightarrow> bool" where
  "genres_not_strings movies \<longleftrightarrow> movies \<noteq> [] \<and> list_all (\<lambda>m. genres m = None) movies"

definition str_contains :: "(string \<Rightarrow> bool) \<Rightarrow> string option \<Rightarrow> bool" where
  "str_contains matcher cell = (case cell of None \<Rightarrow> False | Some s \<Rightarrow> matcher s)"

text \<open>A comparison with a missing year (NaN) is false.\<close>

definition year_ge :: "int option \<Rightarrow> int \<Rightarrow> bool" where
  "year_ge y min_year = (case y of None \<Rightarrow> False | Some v \<Rightarrow> min_year \<le> v)"

definition year_gt :: "int option \<Rightarrow> int \<Rightarrow> bool" where
  "year_gt y min_year = (case y of None \<Rightarrow> False | Some v \<Rightarrow> min_year < v)"

section \<open>Sampling candidates\<close>

text \<open>
  \<^verbatim>\<open>DataFrame.sample(k)\<close> draws \<open>k\<close> rows without replacement. The random source is the
  stream \<open>rnd\<close>: each draw takes one number of the stream, reduces it to a position of the
  rows not drawn yet, and removes that row. A negative \<open>k\<close> and a \<open>k\<close> above the number of
  rows raise \<^verbatim>\<open>ValueError\<close>.
\<close>

fun draw_rows :: "(nat \<Rightarrow> nat) \<Rightarrow> nat \<Rightarrow> 'a list \<Rightarrow> 'a list" where
  "draw_rows rnd 0 xs = []"
| "draw_rows rnd (Suc k) xs =
     (if xs = [] then []
      else (let i = rnd k mod length xs
            in xs ! i # draw_rows rnd k (take i xs @ drop (Suc i) xs)))"

definition df_sample :: "(nat \<Rightarrow> nat) \<Rightarrow> int \<Rightarrow> 'a list \<Rightarrow> error + 'a list" where
  "df_sample rnd k xs =
     (if k < 0 \<or> int (length xs) < k then Inl SampleSizeError
      else Inr (draw_rows rnd (nat k) xs))"

definition genre_year_pool :: "(string \<Rightarrow> bool) \<Rightarrow> int \<Rightarrow> movie list \<Rightarrow> movie list" where
  "genre_year_pool matcher min_year movies =
     filter (\<lambda>m. str_contains matcher (genres m) \<and> year_ge (year m) min_year) movies"

definition get_movies_by_genre_and_year ::
  "regex_engine \<Rightarrow> (nat \<Rightarrow> nat) \<Rightarrow> movie list \<Rightarrow> string \<Rightarrow> int \<Rightarrow> int \<Rightarrow> error + movie list" where
  "get_movies_by_genre_and_year engine rnd movies genre min_year n =
     (if genres_not_strings movies then Inl AttributeError
      else
        (case re_compile engine genre of
           None \<Rightarrow> Inl PatternError
         | Some matcher \<Rightarrow>
             (let pool = genre_year_pool matcher min_year movies
              in if pool = [] then Inl NoMatchError
                 else df_sample rnd (min n (int (length pool))) pool)))"

section \<open>Collecting ratings\<close>

text \<open>
  The console is modelled by the list \<open>ins\<close> of the lines still to be read and by the list
  of the lines written so far. \<open>py_float\<close> stands for Python's \<^verbatim>\<open>float(...)\<close> on a string:
  \<open>None\<close> when it raises \<^verbatim>\<open>ValueError\<close>. The loop catches \<^verbatim>\<open>ValueError\<close> only, so the
  \<^verbatim>\<open>EOFError\<close> of \<^verbatim>\<open>input\<close> leaves the function.
\<close>

definition header :: string where
  \<comment> \<open>\<open>CHR 0x0A\<close> is the line feed the message starts with\<close>
  "header = CHR 0x0A # ''Please rate at least 5 movies (0.5 to 5). Enter 0 to skip.''"

definition prompt :: "movie \<Rightarrow> string" where
  "prompt row = ''Rating for '' @ [CHR 0x27] @ title row @ [CHR 0x27] @ '': ''"

definition warning :: string where
  "warning = ''Invalid input. Skipping.''"

fun rating_loop ::
  "(string \<Rightarrow> pyfloat option) \<Rightarrow> movie list \<Rightarrow> string list \<Rightarrow> rating list \<Rightarrow> string list
     \<Rightarrow> error + (rating list \<times> string list)" where
  "rating_loop py_float [] ins user_ratings out = Inr (user_ratings, out)"
| "rating_loop py_float (row # rows) ins user_ratings out =
     (case ins of
        [] \<Rightarrow> Inl EOFError
      | line # ins' \<Rightarrow>
          (case py_float line of
             None \<Rightarrow> rating_loop py_float rows ins' user_ratings (out @ [prompt row, warning])
           | Some r \<Rightarrow>
               if float_ge r (1 / 2)
               then rating_loop py_float rows ins'
                      (user_ratings @ [\<lparr>r_userId = 9999, r_movieId = movieId row, r_rating = r\<rparr>])
                      (out @ [prompt row])
               else rating_loop py_float rows ins' user_ratings (out @ [prompt row])))"

definition get_user_ratings ::
  "(string \<Rightarrow> pyfloat option) \<Rightarrow> movie list \<Rightarrow> string list \<Rightarrow> error + (rating list \<times> string list)" where
  "get_user_ratings py_float movie_sample ins = rating_loop py_float movie_sample ins [] [header]"

section \<open>Merging the ratings\<close>

definition append_user_data :: "rating list \<Rightarrow> rating list \<Rightarrow> rating list" where
  \<comment> \<open>\<^verbatim>\<open>pd.concat([existing_ratings, user_ratings], ignore_index=True)\<close>\<close>
  "append_user_data existing_ratings user_ratings = existing_ratings @ user_ratings"

section \<open>Recommending\<close>

text \<open>
  The library identifies users and items by raw ids, which are the cells of the table it
  was given: here integers. \<^verbatim>\<open>train_and_recommend\<close> queries the model with
  \<^verbatim>\<open>str(user_id)\<close> and \<^verbatim>\<open>str(row['movieId'])\<close>, which are strings; a raw id is
  therefore an integer or a string, and the two are different ids.

  \<open>fit\<close> stands for reading the table into the library and fitting the model; its result
  maps the two raw ids of a query to the estimate \<^verbatim>\<open>est\<close> of the prediction. A prediction
  carries the raw ids of its query unchanged.
\<close>

datatype raw_id = IntId int | StrId string

record prediction =
  uid :: raw_id
  iid :: raw_id
  est :: real

type_synonym model = "raw_id \<Rightarrow> raw_id \<Rightarrow> real"

definition seen_ids :: "rating list \<Rightarrow> int \<Rightarrow> int set" where
  \<comment> \<open>\<^verbatim>\<open>set(all_ratings[all_ratings['userId'] == user_id]['movieId'])\<close>\<close>
  "seen_ids all_ratings user_id = r_movieId ` set (filter (\<lambda>r. r_userId r = user_id) all_ratings)"

definition filtered_unseen ::
  "(string \<Rightarrow> bool) \<Rightarrow> movie list \<Rightarrow> rating list \<Rightarrow> int \<Rightarrow> int \<Rightarrow> movie list" where
  "filtered_unseen matcher movies all_ratings min_year user_id =
     (let seen = seen_ids all_ratings user_id;
          unseen_movies = filter (\<lambda>m. movieId m \<notin> seen) movies
      in filter (\<lambda>m. str_contains matcher (genres m) \<and> year_gt (year m) min_year) unseen_movies)"

definition predict :: "model \<Rightarrow> raw_id \<Rightarrow> raw_id \<Rightarrow> prediction" where
  "predict m u i = \<lparr>uid = u, iid = i, est = m u i\<rparr>"

definition predictions :: "model \<Rightarrow> int \<Rightarrow> movie list \<Rightarrow> prediction list" where
  "predictions m user_id filtered =
     map (\<lambda>row. predict m (StrId (py_str user_id)) (StrId (py_str (movieId row)))) filtered"

definition slice_to :: "int \<Rightarrow> 'a list \<Rightarrow> 'a list" where
  \<comment> \<open>\<^verbatim>\<open>xs[:n]\<close>: a negative \<open>n\<close> counts from the end\<close>
  "slice_to n xs = (if n < 0 then take (nat (int (length xs) + n)) xs else take (nat n) xs)"

definition top_predictions :: "int \<Rightarrow> prediction list \<Rightarrow> prediction list" where
  \<comment> \<open>\<^verbatim>\<open>sorted(..., key=lambda x: x.est, reverse=True)\<close> is stable: predictions with equal
      estimates keep their order\<close>
  "top_predictions top_n preds =
     slice_to top_n (sort_key (\<lambda>p. - est p) (filter (\<lambda>p. est p > 3) preds))"

definition py_int_id :: "raw_id \<Rightarrow> error + int" where
  \<comment> \<open>\<^verbatim>\<open>int(pred.iid)\<close>\<close>
  "py_int_id r = (case r of IntId i \<Rightarrow> Inr i | StrId s \<Rightarrow> py_int s)"

definition result_row :: "movie list \<Rightarrow> prediction \<Rightarrow> error + (string \<times> real)" where
  \<comment> \<open>\<^verbatim>\<open>(movies[movies['movieId'] == int(pred.iid)]['title'].values[0], pred.est)\<close>\<close>
  "result_row movies pred =
     (case py_int_id (iid pred) of
        Inl e \<Rightarrow> Inl e
      | Inr i \<Rightarrow>
          (case filter (\<lambda>m. movieId m = i) movies of
             [] \<Rightarrow> Inl IndexError
           | m # _ \<Rightarrow> Inr (title m, est pred)))"

fun result_rows :: "movie list \<Rightarrow> prediction list \<Rightarrow> error + (string \<times> real) list" where
  "result_rows movies [] = Inr []"
| "result_rows movies (pred # preds) =
     (case result_row movies pred of
        Inl e \<Rightarrow> Inl e
      | Inr r \<Rightarrow>
          (case result_rows movies preds of
             Inl e \<Rightarrow> Inl e
           | Inr rs \<Rightarrow> Inr (r # rs)))"

definition train_and_recommend ::
  "(rating list \<Rightarrow> error + model) \<Rightarrow> regex_engine \<Rightarrow> movie list \<Rightarrow> rating list \<Rightarrow> string \<Rightarrow> int
     \<Rightarrow> int \<Rightarrow> int \<Rightarrow> error + (string \<times> real) list" where
  "train_and_recommend fit engine movies all_ratings genre_filter min_year user_id top_n =
     (case fit all_ratings of
        Inl e \<Rightarrow> Inl e
      | Inr m \<Rightarrow>
          if genres_not_strings movies then Inl AttributeError
          else
            (case re_compile engine genre_filter of
               None \<Rightarrow> Inl PatternError
             | Some matcher \<Rightarrow>
                 (let filtered = filtered_unseen matcher movies all_ratings min_year user_id
                  in if filtered = [] then Inr []
                     else result_rows movies
                            (top_predictions top_n (predictions m user_id filtered)))))"

section \<open>A small catalog\<close>

text \<open>
  The concrete inputs of the examples below. \<open>untagged_movies\<close> is a catalog whose cells
  of genres are all missing. \<open>no_engine\<close> rejects every expression that
  is left to it; none of the examples reaches it. \<open>first_row\<close> is the random source that
  always draws the first row not drawn yet. \<open>example_float\<close> is \<^verbatim>\<open>float(...)\<close> on the
  lines of input that the examples use. \<open>constant_fit c\<close> is a fitted model whose every estimate is \<open>c\<close>: the
  library answers a query whose raw ids do not occur in its table with the mean of the
  ratings of the table, which is \<open>c\<close> when every rating is \<open>c\<close>. \<open>example_fit\<close> is a
  fitted model whose estimates differ from item to item.
\<close>

definition example_movies :: "movie list" where
  "example_movies = load_movies
     [(1, ''Toy Story (1995)'', Some ''Animation|Comedy''),
      (2, ''Heat (1995)'', Some ''Action|Crime''),
      (3, ''Clue (1985)'', Some ''Comedy|Mystery''),
      (4, ''Rush Hour (1998)'', Some ''Action|Comedy'')]"

definition untagged_movies :: "movie list" where
  "untagged_movies = load_movies [(1, ''Toy Story (1995)'', None), (2, ''Heat (1995)'', None)]"

definition no_engine :: regex_engine where
  "no_engine pat = None"

definition first_row :: "nat \<Rightarrow> nat" where
  "first_row k = 0"

definition example_float :: "string \<Rightarrow> pyfloat option" where
  "example_float line =
     (if line = ''7'' then Some (Finite 7)
      else if line = ''4.5'' then Some (Finite (9 / 2))
      else if line = ''0'' then Some (Finite 0)
      else if line = ''nan'' then Some NaN
      else if line = ''inf'' then Some PosInf
      else None)"

definition constant_fit :: "real \<Rightarrow> rating list \<Rightarrow> error + model" where
  "constant_fit c all_ratings = Inr (\<lambda>u i. c)"

definition example_model :: model where
  "example_model u i =
     (if i = StrId ''3'' then 9 / 2 else if i = StrId ''1'' then 7 / 2 else 5 / 2)"

definition example_fit :: "rating list \<Rightarrow> error + model" where
  "example_fit all_ratings = Inr example_model"

section \<open>Properties\<close>

subsection \<open>Year extraction\<close>

lemma match_year_at_iff:
  "match_year_at s = Some y \<longleftrightarrow>
     (\<exists>d post. s = ''('' @ d @ '')'' @ post \<and> year_literal d \<and> y = int (digits_val d))"
proof
  assume m: "match_year_at s = Some y"
  then have len: "6 \<le> length s" and h: "hd s = CHR ''(''"
    and dg: "list_all is_digit (take 4 (tl s))" and cl: "s ! 5 = CHR '')''"
    and y: "y = int (digits_val (take 4 (tl s)))"
    by (auto simp: match_year_at_def split: if_splits)
  from len obtain a r where s: "s = a # r" by (cases s) auto
  with len have r5: "5 \<le> length r" by simp
  have "r = take 4 r @ drop 4 r" by simp
  moreover from r5 have "drop 4 r = r ! 4 # drop 5 r"
    using Cons_nth_drop_Suc [of 4 r] by simp
  moreover from cl s have "r ! 4 = CHR '')''" by simp
  ultimately have "r = take 4 r @ '')'' @ drop 5 r" by simp
  with s h have "s = ''('' @ take 4 r @ '')'' @ drop 5 r" by simp
  moreover from r5 dg s have "year_literal (take 4 r)" by (simp add: year_literal_def)
  moreover from y s have "y = int (digits_val (take 4 r))" by simp
  ultimately show "\<exists>d post. s = ''('' @ d @ '')'' @ post \<and> year_literal d \<and> y = int (digits_val d)"
    by blast
next
  assume "\<exists>d post. s = ''('' @ d @ '')'' @ post \<and> year_literal d \<and> y = int (digits_val d)"
  then obtain d post where s: "s = ''('' @ d @ '')'' @ post" and d: "year_literal d"
    and y: "y = int (digits_val d)" by blast
  from d have l: "length d = 4" by (simp add: year_literal_def)
  with s have "(d @ '')'' @ post) ! 4 = CHR '')''" by (simp add: nth_append)
  with s l d y show "match_year_at s = Some y"
    by (simp add: match_year_at_def year_literal_def)
qed

lemma match_year_at_Nil: "match_year_at [] = None"
  by (simp add: match_year_at_def)

lemma extract_year_None_iff:
  "extract_year t = None \<longleftrightarrow> (\<forall>pre s. t = pre @ s \<longrightarrow> match_year_at s = None)"
proof (induction t)
  case Nil
  then show ?case by (simp add: match_year_at_Nil)
next
  case (Cons c cs)
  have "(\<forall>pre s. c # cs = pre @ s \<longrightarrow> match_year_at s = None) \<longleftrightarrow>
        match_year_at (c # cs) = None \<and> (\<forall>pre s. cs = pre @ s \<longrightarrow> match_year_at s = None)"
    by (auto simp: Cons_eq_append_conv)
  with Cons.IH show ?case by (simp split: option.splits)
qed

lemma extract_year_at_first:
  assumes "match_year_at s = Some y"
    and "\<And>pre' s'. pre @ s = pre' @ s' \<Longrightarrow> length pre' < length pre \<Longrightarrow> match_year_at s' = None"
  shows "extract_year (pre @ s) = Some y"
  using assms
proof (induction pre)
  case Nil
  then have "s \<noteq> []" by (auto simp: match_year_at_Nil)
  then obtain c cs where "s = c # cs" by (cases s) auto
  with Nil.prems(1) show ?case by simp
next
  case (Cons a pre)
  have "match_year_at (a # pre @ s) = None"
    using Cons.prems(2) [of "[]" "a # pre @ s"] by simp
  moreover have "extract_year (pre @ s) = Some y"
  proof (rule Cons.IH [OF Cons.prems(1)])
    fix pre' s'
    assume "pre @ s = pre' @ s'" and "length pre' < length pre"
    then show "match_year_at s' = None"
      using Cons.prems(2) [of "a # pre'" s'] by simp
  qed
  ultimately show ?case by simp
qed

text \<open>
  Claim C10. \<open>extract_year\<close> is a total function of the title. It returns \<open>None\<close> exactly
  when the title has no substring made of an opening parenthesis, four digits and a closing
  parenthesis. When the title has such a substring, at any position, it returns the decimal
  value of the four digits of the leftmost one.
\<close>

theorem extract_year_first_match:
  "(extract_year t = None \<longleftrightarrow>
      \<not> (\<exists>pre d post. t = pre @ ''('' @ d @ '')'' @ post \<and> year_literal d))
   \<and> (\<forall>pre d post.
        t = pre @ ''('' @ d @ '')'' @ post \<and> year_literal d \<and>
        (\<forall>pre' d' post'. t = pre' @ ''('' @ d' @ '')'' @ post' \<and> year_literal d'
            \<longrightarrow> length pre \<le> length pre')
        \<longrightarrow> extract_year t = Some (int (digits_val d)))"
proof (intro conjI allI impI)
  have none: "match_year_at s = None \<longleftrightarrow>
      \<not> (\<exists>d post. s = ''('' @ d @ '')'' @ post \<and> year_literal d)" for s
  proof -
    have "match_year_at s = None \<longleftrightarrow> \<not> (\<exists>y. match_year_at s = Some y)" by auto
    then show ?thesis unfolding match_year_at_iff by blast
  qed
  show "extract_year t = None \<longleftrightarrow>
      \<not> (\<exists>pre d post. t = pre @ ''('' @ d @ '')'' @ post \<and> year_literal d)"
    unfolding extract_year_None_iff none by blast
  fix pre d post
  assume a: "t = pre @ ''('' @ d @ '')'' @ post \<and> year_literal d \<and>
        (\<forall>pre' d' post'. t = pre' @ ''('' @ d' @ '')'' @ post' \<and> year_literal d'
            \<longrightarrow> length pre \<le> length pre')"
  let ?s = "''('' @ d @ '')'' @ post"
  from a have m: "match_year_at ?s = Some (int (digits_val d))"
    unfolding match_year_at_iff by blast
  have "extract_year (pre @ ?s) = Some (int (digits_val d))"
  proof (rule extract_year_at_first [OF m])
    fix pre' s'
    assume e: "pre @ ?s = pre' @ s'" and l: "length pre' < length pre"
    show "match_year_at s' = None"
    proof (rule ccontr)
      assume "match_year_at s' \<noteq> None"
      then obtain d' post' where "s' = ''('' @ d' @ '')'' @ post'" "year_literal d'"
        unfolding none by blast
      with a e have "length pre \<le> length pre'" by metis
      with l show False by simp
    qed
  qed
  with a show "extract_year t = Some (int (digits_val d))" by simp
qed

theorem extract_year_first_match_witness:
  "year_literal ''1995'' \<and> extract_year ''Heat (1995) (2001)'' = Some 1995 \<and> extract_year ''Heat (95)'' = None"
proof -
  let ?t = "''Heat (1995) (2001)''"
  have yl: "year_literal ''1995''"
    by (simp add: year_literal_def is_digit_def)
  have dec: "?t = ''Heat '' @ ''('' @ ''1995'' @ '')'' @ '' (2001)''" by simp
  have first: "\<forall>pre' d' post'. ?t = pre' @ ''('' @ d' @ '')'' @ post' \<and> year_literal d'
                 \<longrightarrow> length ''Heat '' \<le> length pre'"
    by (auto simp: Cons_eq_append_conv)
  have "extract_year ?t = Some (int (digits_val ''1995''))"
    using extract_year_first_match [of ?t] yl dec first by blast
  moreover have "digits_val ''1995'' = 1995"
    by (simp add: digits_val_def digit_val_def)
  moreover have "extract_year ''Heat (95)'' = None"
    by code_simp
  ultimately show ?thesis using yl by simp
qed

subsection \<open>Merging\<close>

text \<open>
  Claim C7. The merged table has as many rows as the base table and the additions
  together; its rows are the base rows in their order, then the added rows in their order;
  merging no additions gives the base table back.
\<close>

theorem append_user_data_concat:
  "length (append_user_data base additions) = length base + length additions
   \<and> take (length base) (append_user_data base additions) = base
   \<and> drop (length base) (append_user_data base additions) = additions
   \<and> append_user_data base [] = base"
  by (simp add: append_user_data_def)

subsection \<open>Decimal numerals\<close>

lemma digit_char_table:
  "map digit_char [0, 1, 2, 3, 4, 5, 6, 7, 8, 9] = ''0123456789''"
  "map digit_val ''0123456789'' = [0, 1, 2, 3, 4, 5, 6, 7, 8, 9]"
  by code_simp+

lemma digit_char_props:
  assumes "d < 10"
  shows "is_digit (digit_char d)" and "digit_val (digit_char d) = d"
proof -
  from assms have d: "d \<in> set [0, 1, 2, 3, 4, 5, 6, 7, 8, 9]" by auto
  then have "digit_char d \<in> digit_char ` set [0, 1, 2, 3, 4, 5, 6, 7, 8, 9]"
    by (rule imageI)
  then have "digit_char d \<in> set (map digit_char [0, 1, 2, 3, 4, 5, 6, 7, 8, 9])"
    by (simp only: set_map)
  then show "is_digit (digit_char d)"
    unfolding digit_char_table is_digit_def .
  from assms have "[0, 1, 2, 3, 4, 5, 6, 7, 8, 9] ! d = d"
    using d by (auto simp: nth_Cons')
  moreover from assms
  have "map digit_val (map digit_char [0, 1, 2, 3, 4, 5, 6, 7, 8, 9]) ! d = digit_val (digit_char ([0, 1, 2, 3, 4, 5, 6, 7, 8, 9] ! d))"
    by (simp only: map_map) (subst nth_map, simp_all)
  ultimately show "digit_val (digit_char d) = d"
    unfolding digit_char_table by simp
qed

lemma digits_val_snoc: "digits_val (ds @ [c]) = 10 * digits_val ds + digit_val c"
  by (simp add: digits_val_def)

lemma digits_of_props:
  "list_all is_digit (digits_of n) \<and> digits_of n \<noteq> [] \<and> digits_val (digits_of n) = n"
proof (induction n rule: digits_of.induct)
  case (1 n)
  show ?case
  proof (cases "n < 10")
    case True
    then show ?thesis
      by (subst (1 2 3) digits_of.simps) (simp add: digit_char_props digits_val_def)
  next
    case False
    have "n mod 10 < 10" by simp
    with False 1 show ?thesis
      by (subst (1 2 3) digits_of.simps) (simp add: digit_char_props digits_val_snoc)
  qed
qed

lemma py_int_py_str: "py_int (py_str i) = Inr i"
proof -
  have sign: "\<not> is_digit (CHR ''-'')" "\<not> is_digit (CHR ''+'')"
    by (simp_all add: is_digit_def)
  show ?thesis
  proof (cases "i < 0")
    case True
    with digits_of_props [of "nat (- i)"] show ?thesis
      by (simp add: py_int_def py_str_def)
  next
    case False
    obtain c ds where cd: "digits_of (nat i) = c # ds"
      using digits_of_props [of "nat i"] by (cases "digits_of (nat i)") auto
    with digits_of_props [of "nat i"] have "is_digit c" by simp
    with sign have "c \<noteq> CHR ''-''" "c \<noteq> CHR ''+''" by auto
    with False cd digits_of_props [of "nat i"] show ?thesis
      by (simp add: py_int_def py_str_def)
  qed
qed

subsection \<open>Genre expressions without special characters\<close>

lemma split_bar_plain: "plain s \<Longrightarrow> split_bar s = [s]"
  by (induction s) (auto simp: plain_def special_chars_def)

lemma re_compile_plain: "plain genre \<Longrightarrow> re_compile engine genre = Some (ci_infix genre)"
  by (simp add: re_compile_def split_bar_plain)

subsection \<open>Looking titles up\<close>

lemma filter_key_distinct:
  "distinct (map f xs) \<Longrightarrow> x \<in> set xs \<Longrightarrow> filter (\<lambda>y. f y = f x) xs = [x]"
proof (induction xs)
  case Nil
  then show ?case by simp
next
  case (Cons a xs)
  show ?case
  proof (cases "a = x")
    case True
    with Cons.prems(1) have "\<forall>y \<in> set xs. f y \<noteq> f x" by (auto simp: image_iff)
    then have "filter (\<lambda>y. f y = f x) xs = []" by (simp add: filter_empty_conv)
    with True show ?thesis by simp
  next
    case False
    with Cons.prems have "x \<in> set xs" "f a \<noteq> f x" by auto
    with Cons show ?thesis by simp
  qed
qed

lemma result_row_candidate:
  assumes "distinct (map movieId movies)" and "row \<in> set movies"
  shows "result_row movies (predict m u (StrId (py_str (movieId row)))) = Inr (title row, m u (StrId (py_str (movieId row))))"
  using filter_key_distinct [OF assms]
  by (simp add: result_row_def predict_def py_int_id_def py_int_py_str)

lemma result_row_est: "result_row movies p = Inr r \<Longrightarrow> snd r = est p"
  by (auto simp: result_row_def split: sum.splits list.splits)

lemma result_rows_Inr:
  "result_rows movies ps = Inr rs \<Longrightarrow> list_all2 (\<lambda>p r. result_row movies p = Inr r) ps rs"
  by (induction ps arbitrary: rs) (auto split: sum.splits)

subsection \<open>Selecting the top predictions\<close>

lemma set_slice_to: "set (slice_to n xs) \<subseteq> set xs"
  by (auto simp: slice_to_def dest: in_set_takeD)

lemma prefix_slice_to: "prefix (slice_to n xs) xs"
  by (simp add: slice_to_def take_is_prefix)

lemma slice_to_take: "\<exists>k. slice_to n xs = take k xs"
  by (auto simp: slice_to_def)

lemma set_top_predictions: "set (top_predictions n ps) \<subseteq> {p \<in> set ps. 3 < est p}"
  using set_slice_to [of n "sort_key (\<lambda>p. - est p) (filter (\<lambda>p. est p > 3) ps)"]
  by (auto simp: top_predictions_def)

lemma length_top_predictions: "0 \<le> n \<Longrightarrow> length (top_predictions n ps) \<le> nat n"
  by (simp add: top_predictions_def slice_to_def)

lemma sorted_top_predictions: "sorted_wrt (\<lambda>p q. est q \<le> est p) (top_predictions n ps)"
proof -
  let ?s = "sort_key (\<lambda>p. - est p) (filter (\<lambda>p. est p > 3) ps)"
  have "sorted (map (\<lambda>p. - est p) ?s)" by (rule sorted_sort_key)
  then have "sorted_wrt (\<lambda>p q. est q \<le> est p) ?s"
    by (simp add: sorted_map)
  moreover obtain k where "top_predictions n ps = take k ?s"
    unfolding top_predictions_def using slice_to_take by blast
  ultimately show ?thesis by (simp add: sorted_wrt_take)
qed

lemma stable_top_predictions:
  "prefix (filter (\<lambda>p. est p = k) (top_predictions n ps)) (filter (\<lambda>p. est p = k) ps)"
proof -
  let ?kept = "filter (\<lambda>p. est p > 3) ps"
  let ?s = "sort_key (\<lambda>p. - est p) ?kept"
  have "prefix (filter (\<lambda>p. est p = k) (top_predictions n ps)) (filter (\<lambda>p. est p = k) ?s)"
    unfolding top_predictions_def by (intro filter_mono_prefix prefix_slice_to)
  moreover have "filter (\<lambda>p. est p = k) ?s = filter (\<lambda>p. est p = k) ?kept"
    using sort_key_stable [of "\<lambda>p. - est p" "- k" ?kept] by simp
  moreover have "filter (\<lambda>p. est p = k) ?kept = (if 3 < k then filter (\<lambda>p. est p = k) ps else [])"
    by (auto simp: filter_empty_conv intro: filter_cong)
  ultimately show ?thesis by (simp split: if_splits)
qed

subsection \<open>The examples, evaluated\<close>

lemma example_movies_eval:
  "example_movies =
     [\<lparr>movieId = 1, title = ''Toy Story (1995)'', genres = Some ''Animation|Comedy'', year = Some 1995\<rparr>,
      \<lparr>movieId = 2, title = ''Heat (1995)'', genres = Some ''Action|Crime'', year = Some 1995\<rparr>,
      \<lparr>movieId = 3, title = ''Clue (1985)'', genres = Some ''Comedy|Mystery'', year = Some 1985\<rparr>,
      \<lparr>movieId = 4, title = ''Rush Hour (1998)'', genres = Some ''Action|Comedy'', year = Some 1998\<rparr>]"
  unfolding example_movies_def load_movies_def by code_simp

lemma example_movies_strings: "\<not> genres_not_strings example_movies"
  by (simp add: genres_not_strings_def example_movies_eval)

lemma untagged_movies_not_strings: "genres_not_strings untagged_movies"
  by (simp add: genres_not_strings_def untagged_movies_def load_movies_def)

lemma re_compile_action_or_comedy:
  "re_compile engine ''Action|Comedy'' = Some (\<lambda>s. ci_infix ''Action'' s \<or> ci_infix ''Comedy'' s)"
proof -
  have "split_bar ''Action|Comedy'' = [''Action'', ''Comedy'']" by code_simp
  moreover have "plain ''Action''" "plain ''Comedy''" by code_simp+
  ultimately show ?thesis by (simp add: re_compile_def)
qed

lemma re_compile_crime_or_mystery:
  "re_compile engine ''Crime|Mystery'' = Some (\<lambda>s. ci_infix ''Crime'' s \<or> ci_infix ''Mystery'' s)"
proof -
  have "split_bar ''Crime|Mystery'' = [''Crime'', ''Mystery'']" by code_simp
  moreover have "plain ''Crime''" "plain ''Mystery''" by code_simp+
  ultimately show ?thesis by (simp add: re_compile_def)
qed

lemma plain_comedy: "plain ''comedy''"
  by code_simp

lemma ci_infix_examples:
  "ci_infix ''Action'' ''Animation|Comedy'' = False"
  "ci_infix ''Comedy'' ''Animation|Comedy'' = True"
  "ci_infix ''Action'' ''Action|Crime'' = True"
  "ci_infix ''Action'' ''Comedy|Mystery'' = False"
  "ci_infix ''Comedy'' ''Comedy|Mystery'' = True"
  "ci_infix ''Action'' ''Action|Comedy'' = True"
  "ci_infix ''comedy'' ''Animation|Comedy'' = True"
  "ci_infix ''comedy'' ''Action|Crime'' = False"
  "ci_infix ''comedy'' ''Comedy|Mystery'' = True"
  "ci_infix ''comedy'' ''Action|Comedy'' = True"
  "ci_infix ''Crime'' ''Animation|Comedy'' = False"
  "ci_infix ''Mystery'' ''Animation|Comedy'' = False"
  "ci_infix ''Crime'' ''Action|Crime'' = True"
  "ci_infix ''Crime'' ''Comedy|Mystery'' = False"
  "ci_infix ''Mystery'' ''Comedy|Mystery'' = True"
  "ci_infix ''Crime'' ''Action|Comedy'' = False"
  "ci_infix ''Mystery'' ''Action|Comedy'' = False"
  "ci_infix ''Action|Comedy'' ''Animation|Comedy'' = False"
  "ci_infix ''Action|Comedy'' ''Action|Crime'' = False"
  "ci_infix ''Action|Comedy'' ''Comedy|Mystery'' = False"
  "ci_infix ''Action|Comedy'' ''Action|Comedy'' = True"
  "ci_infix ''Crime|Mystery'' ''Animation|Comedy'' = False"
  "ci_infix ''Crime|Mystery'' ''Action|Crime'' = False"
  "ci_infix ''Crime|Mystery'' ''Comedy|Mystery'' = False"
  "ci_infix ''Crime|Mystery'' ''Action|Comedy'' = False"
  by code_simp+

lemma digit_char_simps:
  "digit_char 0 = CHR ''0''" "digit_char 1 = CHR ''1''" "digit_char 2 = CHR ''2''"
  "digit_char 3 = CHR ''3''" "digit_char 4 = CHR ''4''" "digit_char 5 = CHR ''5''"
  "digit_char 6 = CHR ''6''" "digit_char 7 = CHR ''7''" "digit_char 8 = CHR ''8''"
  "digit_char 9 = CHR ''9''" "digit_char (Suc 0) = CHR ''1''"
  by code_simp+

lemma py_str_examples:
  "py_str 1 = ''1''" "py_str 2 = ''2''" "py_str 3 = ''3''" "py_str 4 = ''4''" "py_str 9999 = ''9999''"
  by (simp_all add: py_str_def digits_of.simps digit_char_simps)

lemma py_int_examples:
  "py_int ''1'' = Inr 1" "py_int ''2'' = Inr 2" "py_int ''3'' = Inr 3" "py_int ''4'' = Inr 4"
  using py_int_py_str [of 1] py_int_py_str [of 2] py_int_py_str [of 3] py_int_py_str [of 4]
  by (simp_all only: py_str_examples)

lemmas recommend_eval =
  train_and_recommend_def constant_fit_def example_fit_def example_model_def genres_not_strings_def
  re_compile_action_or_comedy re_compile_plain plain_comedy ci_infix_examples example_movies_eval
  filtered_unseen_def seen_ids_def str_contains_def year_gt_def predictions_def predict_def
  top_predictions_def slice_to_def result_row_def py_int_id_def py_str_examples py_int_examples

lemma recommend_action_or_comedy:
  "train_and_recommend (constant_fit 4) no_engine example_movies
     [\<lparr>r_userId = 9999, r_movieId = 4, r_rating = Finite 4\<rparr>] ''Action|Comedy'' 1990 9999 5
   = Inr [(''Toy Story (1995)'', 4), (''Heat (1995)'', 4)]"
  by (simp add: recommend_eval)

lemma recommend_comedy:
  "train_and_recommend example_fit no_engine example_movies
     [\<lparr>r_userId = 9999, r_movieId = 4, r_rating = Finite 4\<rparr>] ''comedy'' 1980 9999 2
   = Inr [(''Clue (1985)'', 9 / 2), (''Toy Story (1995)'', 7 / 2)]"
  by (simp add: recommend_eval)

lemma recommend_two_comedies:
  "train_and_recommend (constant_fit 4) no_engine example_movies
     [\<lparr>r_userId = 9999, r_movieId = 2, r_rating = Finite 4\<rparr>] ''comedy'' 1980 9999 2
   = Inr [(''Toy Story (1995)'', 4), (''Clue (1985)'', 4)]"
  by (simp add: recommend_eval)

lemma recommend_untagged:
  "train_and_recommend (constant_fit 4) no_engine untagged_movies
     [\<lparr>r_userId = 9999, r_movieId = 2, r_rating = Finite 4\<rparr>] ''comedy'' 1980 9999 5
   = Inl AttributeError"
  by (simp add: train_and_recommend_def constant_fit_def untagged_movies_not_strings)

lemma recommend_negative_top_n:
  "train_and_recommend (constant_fit 4) no_engine example_movies
     [\<lparr>r_userId = 9999, r_movieId = 2, r_rating = Finite 4\<rparr>] ''comedy'' 1980 9999 (- 1)
   = Inr [(''Toy Story (1995)'', 4), (''Clue (1985)'', 4)]"
  by (simp add: recommend_eval)

subsection \<open>Recommendations\<close>

lemma list_all2_right_member:
  "list_all2 P xs ys \<Longrightarrow> y \<in> set ys \<Longrightarrow> \<exists>x \<in> set xs. P x y"
  by (induction rule: list_all2_induct) auto

lemma train_and_recommend_Inr:
  assumes "train_and_recommend fit engine movies all_ratings genre min_year user_id top_n = Inr res"
  obtains m matcher where "fit all_ratings = Inr m" and "re_compile engine genre = Some matcher"
    and "list_all2 (\<lambda>p r. result_row movies p = Inr r)
           (top_predictions top_n
              (predictions m user_id (filtered_unseen matcher movies all_ratings min_year user_id)))
           res"
proof -
  from assms obtain m where m: "fit all_ratings = Inr m"
    by (auto simp: train_and_recommend_def split: sum.splits)
  from assms m have ns: "\<not> genres_not_strings movies"
    by (auto simp: train_and_recommend_def split: if_splits)
  from assms m ns obtain matcher where c: "re_compile engine genre = Some matcher"
    by (auto simp: train_and_recommend_def split: option.splits)
  let ?filtered = "filtered_unseen matcher movies all_ratings min_year user_id"
  let ?tp = "top_predictions top_n (predictions m user_id ?filtered)"
  have "list_all2 (\<lambda>p r. result_row movies p = Inr r) ?tp res"
  proof (cases "?filtered = []")
    case True
    with assms m ns c have "res = []" by (simp add: train_and_recommend_def)
    moreover from True have "?tp = []"
      using set_top_predictions [of top_n "predictions m user_id ?filtered"]
      by (simp add: predictions_def)
    ultimately show ?thesis by simp
  next
    case False
    with assms m ns c have "result_rows movies ?tp = Inr res"
      by (simp add: train_and_recommend_def)
    then show ?thesis by (rule result_rows_Inr)
  qed
  with m c show ?thesis by (rule that)
qed

lemma in_filtered_unseen:
  "row \<in> set (filtered_unseen matcher movies all_ratings min_year user_id) \<longleftrightarrow>
     row \<in> set movies \<and> movieId row \<notin> seen_ids all_ratings user_id
     \<and> str_contains matcher (genres row) \<and> year_gt (year row) min_year"
  by (auto simp: filtered_unseen_def)

lemma result_row_title:
  assumes "result_row movies p = Inr (t, s)" and "py_int_id (iid p) = Inr i"
  shows "\<exists>first \<in> set movies. movieId first = i \<and> title first = t"
proof -
  from assms obtain first rest where f: "filter (\<lambda>m. movieId m = i) movies = first # rest"
    and t: "title first = t"
    by (auto simp: result_row_def split: list.splits)
  from f have "first \<in> set (filter (\<lambda>m. movieId m = i) movies)" by simp
  with t show ?thesis by auto
qed

text \<open>
  Claim C1, as amended. When the genre has no special character of regular expressions,
  every returned pair comes from a catalog movie that the user has not rated, whose
  genres contain the genre as a substring, ignoring case, and whose year is present and
  strictly greater than the minimum year. The returned title is the title of a catalog row
  with the movie id of that movie, and it is the title of that movie itself when the movie
  ids of the catalog are distinct.
\<close>

theorem recommended_unseen_genre_year:
  assumes "train_and_recommend fit engine movies all_ratings genre min_year user_id top_n = Inr res"
    and "plain genre"
  shows "\<forall>(t, s) \<in> set res. \<exists>row \<in> set movies.
           movieId row \<notin> seen_ids all_ratings user_id
           \<and> (\<exists>g. genres row = Some g \<and> ci_infix genre g)
           \<and> (\<exists>y. year row = Some y \<and> min_year < y)
           \<and> (\<exists>first \<in> set movies. movieId first = movieId row \<and> title first = t)
           \<and> (distinct (map movieId movies) \<longrightarrow> title row = t)"
proof (clarify)
  fix t s
  assume ts: "(t, s) \<in> set res"
  from assms(1) obtain m matcher where m: "fit all_ratings = Inr m"
    and c: "re_compile engine genre = Some matcher"
    and rel: "list_all2 (\<lambda>p r. result_row movies p = Inr r)
           (top_predictions top_n
              (predictions m user_id (filtered_unseen matcher movies all_ratings min_year user_id)))
           res"
    by (rule train_and_recommend_Inr)
  from c assms(2) have matcher: "matcher = ci_infix genre"
    by (simp add: re_compile_plain)
  let ?filtered = "filtered_unseen matcher movies all_ratings min_year user_id"
  from rel ts obtain p where p: "p \<in> set (top_predictions top_n (predictions m user_id ?filtered))"
    and r: "result_row movies p = Inr (t, s)"
    by (blast dest: list_all2_right_member)
  from p set_top_predictions have "p \<in> set (predictions m user_id ?filtered)" by blast
  then obtain row where row: "row \<in> set ?filtered"
    and pr: "p = predict m (StrId (py_str user_id)) (StrId (py_str (movieId row)))"
    by (auto simp: predictions_def)
  from row have props: "row \<in> set movies" "movieId row \<notin> seen_ids all_ratings user_id"
    "str_contains matcher (genres row)" "year_gt (year row) min_year"
    by (simp_all add: in_filtered_unseen)
  from pr have "py_int_id (iid p) = Inr (movieId row)"
    by (simp add: predict_def py_int_id_def py_int_py_str)
  with r have first: "\<exists>first \<in> set movies. movieId first = movieId row \<and> title first = t"
    by (rule result_row_title)
  have same: "distinct (map movieId movies) \<longrightarrow> title row = t"
  proof
    assume "distinct (map movieId movies)"
    from result_row_candidate [OF this props(1)] r pr show "title row = t" by simp
  qed
  from props(3) matcher have genre: "\<exists>g. genres row = Some g \<and> ci_infix genre g"
    by (simp add: str_contains_def split: option.splits)
  from props(4) have year: "\<exists>y. year row = Some y \<and> min_year < y"
    by (simp add: year_gt_def split: option.splits)
  from props(1,2) genre year first same
  show "\<exists>row \<in> set movies.
           movieId row \<notin> seen_ids all_ratings user_id
           \<and> (\<exists>g. genres row = Some g \<and> ci_infix genre g)
           \<and> (\<exists>y. year row = Some y \<and> min_year < y)
           \<and> (\<exists>first \<in> set movies. movieId first = movieId row \<and> title first = t)
           \<and> (distinct (map movieId movies) \<longrightarrow> title row = t)"
    by blast
qed

theorem recommended_unseen_genre_year_witness:
  "train_and_recommend example_fit no_engine example_movies
     [\<lparr>r_userId = 9999, r_movieId = 4, r_rating = Finite 4\<rparr>] ''comedy'' 1980 9999 2
   = Inr [(''Clue (1985)'', 9 / 2), (''Toy Story (1995)'', 7 / 2)]
   \<and> plain ''comedy''
   \<and> distinct (map movieId example_movies)
   \<and> (\<exists>row \<in> set example_movies.
           title row = ''Clue (1985)''
           \<and> movieId row \<notin> seen_ids [\<lparr>r_userId = 9999, r_movieId = 4, r_rating = Finite 4\<rparr>] 9999
           \<and> (\<exists>g. genres row = Some g \<and> ci_infix ''comedy'' g)
           \<and> (\<exists>y. year row = Some y \<and> 1980 < y))"
proof -
  have d: "distinct (map movieId example_movies)"
    by (simp add: example_movies_eval)
  have "\<exists>row \<in> set example_movies.
           movieId row \<notin> seen_ids [\<lparr>r_userId = 9999, r_movieId = 4, r_rating = Finite 4\<rparr>] 9999
           \<and> (\<exists>g. genres row = Some g \<and> ci_infix ''comedy'' g)
           \<and> (\<exists>y. year row = Some y \<and> 1980 < y)
           \<and> (\<exists>first \<in> set example_movies. movieId first = movieId row \<and> title first = ''Clue (1985)'')
           \<and> (distinct (map movieId example_movies) \<longrightarrow> title row = ''Clue (1985)'')"
    using recommended_unseen_genre_year [OF recommend_comedy plain_comedy] by simp
  with d have "\<exists>row \<in> set example_movies.
           title row = ''Clue (1985)''
           \<and> movieId row \<notin> seen_ids [\<lparr>r_userId = 9999, r_movieId = 4, r_rating = Finite 4\<rparr>] 9999
           \<and> (\<exists>g. genres row = Some g \<and> ci_infix ''comedy'' g)
           \<and> (\<exists>y. year row = Some y \<and> 1980 < y)"
    by blast
  with recommend_comedy plain_comedy d show ?thesis by blast
qed

text \<open>
  Claim C1 as stated fails: the genre is read as a regular expression. With the genre
  \<open>Action|Comedy\<close> the movie with the genres \<open>Animation|Comedy\<close> is recommended, and its
  genres do not contain the genre as a substring.
\<close>

theorem recommended_genre_counterexample:
  "train_and_recommend (constant_fit 4) no_engine example_movies
     [\<lparr>r_userId = 9999, r_movieId = 4, r_rating = Finite 4\<rparr>] ''Action|Comedy'' 1990 9999 5
   = Inr [(''Toy Story (1995)'', 4), (''Heat (1995)'', 4)]
   \<and> map (\<lambda>row. (title row, genres row)) example_movies
     = [(''Toy Story (1995)'', Some ''Animation|Comedy''), (''Heat (1995)'', Some ''Action|Crime''),
        (''Clue (1985)'', Some ''Comedy|Mystery''), (''Rush Hour (1998)'', Some ''Action|Comedy'')]
   \<and> \<not> ci_infix ''Action|Comedy'' ''Animation|Comedy''"
  using recommend_action_or_comedy by (simp add: example_movies_eval ci_infix_examples)

text \<open>
  Claim C2. Every returned score is strictly greater than 3.
\<close>

theorem recommended_scores_above_three:
  assumes "train_and_recommend fit engine movies all_ratings genre min_year user_id top_n = Inr res"
  shows "\<forall>(t, s) \<in> set res. 3 < s"
proof (clarify)
  fix t s
  assume ts: "(t, s) \<in> set res"
  from assms obtain m matcher where
    rel: "list_all2 (\<lambda>p r. result_row movies p = Inr r)
           (top_predictions top_n
              (predictions m user_id (filtered_unseen matcher movies all_ratings min_year user_id)))
           res"
    by (rule train_and_recommend_Inr)
  from rel ts obtain p
    where p: "p \<in> set (top_predictions top_n
                (predictions m user_id (filtered_unseen matcher movies all_ratings min_year user_id)))"
    and r: "result_row movies p = Inr (t, s)"
    by (blast dest: list_all2_right_member)
  from p set_top_predictions have "3 < est p" by blast
  with result_row_est [OF r] show "3 < s" by simp
qed

theorem recommended_scores_above_three_witness:
  "train_and_recommend example_fit no_engine example_movies
     [\<lparr>r_userId = 9999, r_movieId = 4, r_rating = Finite 4\<rparr>] ''comedy'' 1980 9999 2
   = Inr [(''Clue (1985)'', 9 / 2), (''Toy Story (1995)'', 7 / 2)]
   \<and> (3 :: real) < 9 / 2 \<and> (3 :: real) < 7 / 2"
  using recommended_scores_above_three [OF recommend_comedy] recommend_comedy by simp

text \<open>
  Claim C3, as amended. The returned pairs are the title lookups of the selected
  predictions. For a top-N that is not negative there are at most that many of them. They
  are sorted by score, highest first. For every score, the selected predictions with that
  score are an initial part, in processing order, of all predictions with that score: of
  two predictions with equal scores the one processed earlier comes first.
\<close>

theorem recommended_top_n_sorted_stable:
  assumes "train_and_recommend fit engine movies all_ratings genre min_year user_id top_n = Inr res"
    and "fit all_ratings = Inr m"
    and "re_compile engine genre = Some matcher"
    and "preds = predictions m user_id (filtered_unseen matcher movies all_ratings min_year user_id)"
  shows "(0 \<le> top_n \<longrightarrow> int (length res) \<le> top_n)
       \<and> sorted_wrt (\<lambda>a b. snd b \<le> snd a) res
       \<and> list_all2 (\<lambda>p r. result_row movies p = Inr r) (top_predictions top_n preds) res
       \<and> (\<forall>k. prefix (filter (\<lambda>p. est p = k) (top_predictions top_n preds))
                       (filter (\<lambda>p. est p = k) preds))"
proof -
  let ?tp = "top_predictions top_n preds"
  from assms have rel: "list_all2 (\<lambda>p r. result_row movies p = Inr r) ?tp res"
    by (auto elim: train_and_recommend_Inr)
  then have len: "length res = length ?tp" by (simp add: list_all2_lengthD)
  have scores: "map snd res = map est ?tp"
    using rel by (induction rule: list_all2_induct) (simp_all add: result_row_est)
  have "sorted_wrt (\<lambda>a b. b \<le> a) (map est ?tp)"
    using sorted_top_predictions [of top_n preds] by (simp add: sorted_wrt_map)
  then have "sorted_wrt (\<lambda>a b. snd b \<le> snd a) res"
    unfolding scores [symmetric] by (simp add: sorted_wrt_map)
  moreover have "0 \<le> top_n \<longrightarrow> int (length res) \<le> top_n"
    using length_top_predictions [of top_n preds] len by auto
  ultimately show ?thesis using rel stable_top_predictions by blast
qed

theorem recommended_top_n_sorted_stable_witness:
  "train_and_recommend (constant_fit 4) no_engine example_movies
     [\<lparr>r_userId = 9999, r_movieId = 2, r_rating = Finite 4\<rparr>] ''comedy'' 1980 9999 2
   = Inr [(''Toy Story (1995)'', 4), (''Clue (1985)'', 4)]
   \<and> constant_fit 4 [\<lparr>r_userId = 9999, r_movieId = 2, r_rating = Finite 4\<rparr>] = Inr (\<lambda>u i. 4)
   \<and> re_compile no_engine ''comedy'' = Some (ci_infix ''comedy'')
   \<and> (0 :: int) \<le> 2
   \<and> int (length [(''Toy Story (1995)'', 4 :: real), (''Clue (1985)'', 4)]) \<le> 2
   \<and> sorted_wrt (\<lambda>a b. snd b \<le> snd a) [(''Toy Story (1995)'', 4 :: real), (''Clue (1985)'', 4)]"
proof -
  have f: "constant_fit 4 [\<lparr>r_userId = 9999, r_movieId = 2, r_rating = Finite 4\<rparr>] = Inr (\<lambda>u i. 4)"
    by (simp add: constant_fit_def)
  have c: "re_compile no_engine ''comedy'' = Some (ci_infix ''comedy'')"
    by (simp add: re_compile_plain plain_comedy)
  from recommended_top_n_sorted_stable [OF recommend_two_comedies f c refl]
  show ?thesis using recommend_two_comedies f c by simp
qed

text \<open>
  Claim C3 as stated fails for a negative top-N: the slice \<^verbatim>\<open>[:top_n]\<close> then drops
  that many predictions from the end and keeps the rest. With top-N \<open>- 1\<close> and three
  retained predictions, two are returned.
\<close>

theorem recommended_top_n_counterexample:
  "train_and_recommend (constant_fit 4) no_engine example_movies
     [\<lparr>r_userId = 9999, r_movieId = 2, r_rating = Finite 4\<rparr>] ''comedy'' 1980 9999 (- 1)
   = Inr [(''Toy Story (1995)'', 4), (''Clue (1985)'', 4)]
   \<and> \<not> int (length [(''Toy Story (1995)'', 4 :: real), (''Clue (1985)'', 4)]) \<le> - 1"
  using recommend_negative_top_n by simp

text \<open>
  Claim C4. The model is fitted on a table whose user and movie ids are integers, the seen
  set is computed with the integer \<open>user_id\<close>, and the title lookup turns the id of a
  prediction back into an integer. The query itself is made with the strings
  \<^verbatim>\<open>str(user_id)\<close> and \<^verbatim>\<open>str(row['movieId'])\<close>: for the user \<open>9999\<close> and the movie \<open>2\<close>
  the model is asked about the raw ids \<open>''9999''\<close> and \<open>''2''\<close>, which are not the ids
  \<open>9999\<close> and \<open>2\<close> of the table.
\<close>

theorem predictions_query_strings:
  "predictions m 9999 [\<lparr>movieId = 2, title = ''Heat (1995)'', genres = Some ''Action|Crime'', year = Some 1995\<rparr>]
     = [\<lparr>uid = StrId ''9999'', iid = StrId ''2'', est = m (StrId ''9999'') (StrId ''2'')\<rparr>]
   \<and> StrId ''9999'' \<noteq> IntId 9999 \<and> StrId ''2'' \<noteq> IntId 2"
  by (simp add: predictions_def predict_def py_str_examples)

subsection \<open>Sampling\<close>

lemma draw_rows_first_row: "draw_rows first_row k xs = take k xs"
proof (induction k arbitrary: xs)
  case 0
  then show ?case by simp
next
  case (Suc k)
  then show ?case by (cases xs) (simp_all add: first_row_def)
qed

lemmas sample_eval =
  get_movies_by_genre_and_year_def genre_year_pool_def df_sample_def str_contains_def year_ge_def
  genres_not_strings_def
  Let_def draw_rows_first_row example_movies_eval re_compile_action_or_comedy
  re_compile_crime_or_mystery re_compile_plain plain_comedy ci_infix_examples

lemma pool_comedy_1990:
  "genre_year_pool (ci_infix ''comedy'') 1990 example_movies =
     [\<lparr>movieId = 1, title = ''Toy Story (1995)'', genres = Some ''Animation|Comedy'', year = Some 1995\<rparr>,
      \<lparr>movieId = 4, title = ''Rush Hour (1998)'', genres = Some ''Action|Comedy'', year = Some 1998\<rparr>]"
  by (simp add: sample_eval del: draw_rows.simps)

lemma sample_one_comedy:
  "get_movies_by_genre_and_year no_engine first_row example_movies ''comedy'' 1990 1 =
     Inr [\<lparr>movieId = 1, title = ''Toy Story (1995)'', genres = Some ''Animation|Comedy'', year = Some 1995\<rparr>]"
  by (simp add: sample_eval del: draw_rows.simps)

lemma sample_negative_size:
  "get_movies_by_genre_and_year no_engine first_row example_movies ''comedy'' 1990 (- 1) =
     Inl SampleSizeError"
  by (simp add: sample_eval del: draw_rows.simps)

lemma pool_action_or_comedy_literal:
  "genre_year_pool (ci_infix ''Action|Comedy'') 1990 example_movies =
     [\<lparr>movieId = 4, title = ''Rush Hour (1998)'', genres = Some ''Action|Comedy'', year = Some 1998\<rparr>]"
  by (simp add: sample_eval del: draw_rows.simps)

lemma sample_action_or_comedy:
  "get_movies_by_genre_and_year no_engine first_row example_movies ''Action|Comedy'' 1990 15 =
     Inr [\<lparr>movieId = 1, title = ''Toy Story (1995)'', genres = Some ''Animation|Comedy'', year = Some 1995\<rparr>,
          \<lparr>movieId = 2, title = ''Heat (1995)'', genres = Some ''Action|Crime'', year = Some 1995\<rparr>,
          \<lparr>movieId = 4, title = ''Rush Hour (1998)'', genres = Some ''Action|Comedy'', year = Some 1998\<rparr>]"
  by (simp add: sample_eval del: draw_rows.simps)

lemma pool_crime_or_mystery_literal:
  "genre_year_pool (ci_infix ''Crime|Mystery'') 1990 example_movies = []"
  by (simp add: sample_eval del: draw_rows.simps)

lemma sample_crime_or_mystery:
  "get_movies_by_genre_and_year no_engine first_row example_movies ''Crime|Mystery'' 1990 15 =
     Inr [\<lparr>movieId = 2, title = ''Heat (1995)'', genres = Some ''Action|Crime'', year = Some 1995\<rparr>]"
  by (simp add: sample_eval del: draw_rows.simps)

lemma pool_comedy_2000:
  "genre_year_pool (ci_infix ''comedy'') 2000 example_movies = []"
  by (simp add: sample_eval del: draw_rows.simps)

lemma length_draw_rows: "length (draw_rows rnd k xs) = min k (length xs)"
proof (induction k arbitrary: xs)
  case 0
  then show ?case by simp
next
  case (Suc k)
  show ?case
  proof (cases "xs = []")
    case True
    then show ?thesis by simp
  next
    case False
    let ?i = "rnd k mod length xs"
    from False have "?i < length xs" by simp
    then have "length (take ?i xs @ drop (Suc ?i) xs) = length xs - 1" by simp
    with Suc.IH have "length (draw_rows rnd k (take ?i xs @ drop (Suc ?i) xs)) = min k (length xs - 1)"
      by simp
    moreover from False have "Suc (min k (length xs - 1)) = min (Suc k) (length xs)"
      by (cases xs) simp_all
    ultimately show ?thesis using False by (simp add: Let_def)
  qed
qed

lemma mset_draw_rows: "mset (draw_rows rnd k xs) \<subseteq># mset xs"
proof (induction k arbitrary: xs)
  case 0
  then show ?case by simp
next
  case (Suc k)
  show ?case
  proof (cases "xs = []")
    case True
    then show ?thesis by simp
  next
    case False
    let ?i = "rnd k mod length xs"
    let ?rest = "take ?i xs @ drop (Suc ?i) xs"
    from False have i: "?i < length xs" by simp
    then have "xs = take ?i xs @ xs ! ?i # drop (Suc ?i) xs"
      by (rule id_take_nth_drop)
    then have "mset xs = add_mset (xs ! ?i) (mset ?rest)"
      by (metis mset.simps(2) mset_append union_mset_add_mset_right)
    moreover have "mset (draw_rows rnd k ?rest) \<subseteq># mset ?rest" by (rule Suc.IH)
    ultimately show ?thesis using False by (simp add: Let_def)
  qed
qed

lemma distinct_draw_rows:
  assumes "distinct xs"
  shows "distinct (draw_rows rnd k xs)"
proof -
  let ?ys = "draw_rows rnd k xs"
  have "count (mset ?ys) a = (if a \<in> set ?ys then 1 else 0)" for a
  proof -
    have le: "count (mset ?ys) a \<le> count (mset xs) a"
      using mset_draw_rows by (rule mset_subset_eq_count)
    from assms have one: "count (mset xs) a \<le> 1"
      by (simp add: distinct_count_atmost_1)
    show ?thesis
    proof (cases "a \<in> set ?ys")
      case True
      then have "count (mset ?ys) a \<noteq> 0" by (simp add: count_mset_0_iff)
      with le one have "count (mset ?ys) a = 1" by linarith
      with True show ?thesis by simp
    next
      case False
      then show ?thesis by (simp add: count_mset_0_iff)
    qed
  qed
  then show ?thesis by (simp add: distinct_count_atmost_1)
qed

lemma in_genre_year_pool:
  "m \<in> set (genre_year_pool (ci_infix genre) min_year movies) \<longleftrightarrow>
     m \<in> set movies \<and> (\<exists>g. genres m = Some g \<and> ci_infix genre g)
     \<and> (\<exists>y. year m = Some y \<and> min_year \<le> y)"
  by (auto simp: genre_year_pool_def str_contains_def year_ge_def split: option.splits)

lemma pool_nonempty_strings:
  assumes "genre_year_pool (ci_infix genre) min_year movies \<noteq> []"
  shows "\<not> genres_not_strings movies"
proof -
  from assms obtain m where "m \<in> set (genre_year_pool (ci_infix genre) min_year movies)"
    by (cases "genre_year_pool (ci_infix genre) min_year movies") auto
  then have "m \<in> set movies" and "genres m \<noteq> None"
    by (auto simp: in_genre_year_pool)
  then show ?thesis by (auto simp: genres_not_strings_def list_all_iff)
qed

text \<open>
  Claim C5, as amended. When the genre has no special character of regular expressions,
  the pool size asked for is not negative, and some catalog movie has the genre as a
  substring of its genres, ignoring case, and a year that is present and at least the
  minimum year, then the sampler returns rows of the pool of these movies: as many as the
  smaller of the size asked for and the size of the pool, no row more often than the pool
  has it, hence distinct rows when the catalog rows are distinct, and each with the
  genre and year property.
\<close>

theorem sample_size_and_members:
  assumes "plain genre" and "0 \<le> n"
    and "genre_year_pool (ci_infix genre) min_year movies \<noteq> []"
  shows "\<exists>res. get_movies_by_genre_and_year engine rnd movies genre min_year n = Inr res
           \<and> length res = min (nat n) (length (genre_year_pool (ci_infix genre) min_year movies))
           \<and> mset res \<subseteq># mset (genre_year_pool (ci_infix genre) min_year movies)
           \<and> (distinct movies \<longrightarrow> distinct res)
           \<and> (\<forall>m \<in> set res. (\<exists>g. genres m = Some g \<and> ci_infix genre g)
                              \<and> (\<exists>y. year m = Some y \<and> min_year \<le> y))"
proof -
  let ?pool = "genre_year_pool (ci_infix genre) min_year movies"
  let ?k = "nat (min n (int (length ?pool)))"
  let ?res = "draw_rows rnd ?k ?pool"
  from assms(2) have "\<not> min n (int (length ?pool)) < 0"
    and "\<not> int (length ?pool) < min n (int (length ?pool))" by simp_all
  with assms pool_nonempty_strings [OF assms(3)]
  have run: "get_movies_by_genre_and_year engine rnd movies genre min_year n = Inr ?res"
    by (simp add: get_movies_by_genre_and_year_def re_compile_plain df_sample_def Let_def)
  from assms(2) have k: "?k = min (nat n) (length ?pool)" by (simp add: min_def)
  have len: "length ?res = min (nat n) (length ?pool)"
    by (simp add: length_draw_rows k)
  have sub: "mset ?res \<subseteq># mset ?pool" by (rule mset_draw_rows)
  have dist: "distinct movies \<longrightarrow> distinct ?res"
    by (simp add: distinct_draw_rows genre_year_pool_def)
  have "set ?res \<subseteq> set ?pool" using set_mset_mono [OF sub] by simp
  then have mem: "\<forall>m \<in> set ?res. (\<exists>g. genres m = Some g \<and> ci_infix genre g)
                              \<and> (\<exists>y. year m = Some y \<and> min_year \<le> y)"
    using in_genre_year_pool by blast
  from run len sub dist mem show ?thesis by blast
qed

theorem sample_size_and_members_witness:
  "plain ''comedy'' \<and> (0 :: int) \<le> 1
   \<and> genre_year_pool (ci_infix ''comedy'') 1990 example_movies =
       [\<lparr>movieId = 1, title = ''Toy Story (1995)'', genres = Some ''Animation|Comedy'', year = Some 1995\<rparr>,
        \<lparr>movieId = 4, title = ''Rush Hour (1998)'', genres = Some ''Action|Comedy'', year = Some 1998\<rparr>]
   \<and> get_movies_by_genre_and_year no_engine first_row example_movies ''comedy'' 1990 1 =
       Inr [\<lparr>movieId = 1, title = ''Toy Story (1995)'', genres = Some ''Animation|Comedy'', year = Some 1995\<rparr>]
   \<and> length [\<lparr>movieId = 1, title = ''Toy Story (1995)'', genres = Some ''Animation|Comedy'', year = Some 1995\<rparr>]
       = min (nat 1) (length (genre_year_pool (ci_infix ''comedy'') 1990 example_movies))"
proof -
  have ne: "genre_year_pool (ci_infix ''comedy'') 1990 example_movies \<noteq> []"
    by (simp add: pool_comedy_1990)
  have n: "(0 :: int) \<le> 1" by simp
  from sample_size_and_members [OF plain_comedy n ne, of no_engine first_row]
  show ?thesis using plain_comedy pool_comedy_1990 sample_one_comedy by simp
qed

text \<open>
  Claim C5 as stated fails in two ways. The genre is read as a regular expression: one
  catalog movie has \<open>Action|Comedy\<close> as a substring of its genres, so the claim asks for
  one movie out of a pool of one, and the sampler returns three movies, two of which do
  not have that substring. And a negative pool size makes \<^verbatim>\<open>DataFrame.sample\<close> raise
  instead of returning movies.
\<close>

theorem sample_counterexample:
  "genre_year_pool (ci_infix ''Action|Comedy'') 1990 example_movies =
     [\<lparr>movieId = 4, title = ''Rush Hour (1998)'', genres = Some ''Action|Comedy'', year = Some 1998\<rparr>]
   \<and> get_movies_by_genre_and_year no_engine first_row example_movies ''Action|Comedy'' 1990 15 =
       Inr [\<lparr>movieId = 1, title = ''Toy Story (1995)'', genres = Some ''Animation|Comedy'', year = Some 1995\<rparr>,
            \<lparr>movieId = 2, title = ''Heat (1995)'', genres = Some ''Action|Crime'', year = Some 1995\<rparr>,
            \<lparr>movieId = 4, title = ''Rush Hour (1998)'', genres = Some ''Action|Comedy'', year = Some 1998\<rparr>]
   \<and> \<not> ci_infix ''Action|Comedy'' ''Animation|Comedy''
   \<and> genre_year_pool (ci_infix ''comedy'') 1990 example_movies =
       [\<lparr>movieId = 1, title = ''Toy Story (1995)'', genres = Some ''Animation|Comedy'', year = Some 1995\<rparr>,
        \<lparr>movieId = 4, title = ''Rush Hour (1998)'', genres = Some ''Action|Comedy'', year = Some 1998\<rparr>]
   \<and> get_movies_by_genre_and_year no_engine first_row example_movies ''comedy'' 1990 (- 1) =
       Inl SampleSizeError"
  using pool_action_or_comedy_literal sample_action_or_comedy pool_comedy_1990 sample_negative_size
  by (simp add: ci_infix_examples)

lemma pool_untagged:
  "genre_year_pool (ci_infix ''comedy'') 1990 untagged_movies = []"
  by (simp add: genre_year_pool_def untagged_movies_def load_movies_def str_contains_def)

lemma sample_untagged:
  "get_movies_by_genre_and_year no_engine first_row untagged_movies ''comedy'' 1990 15 =
     Inl AttributeError"
  by (simp add: get_movies_by_genre_and_year_def untagged_movies_not_strings)

text \<open>
  Claim C6, as amended. When the genre has no special character of regular expressions, the
  column of genres holds strings, and no catalog movie has both the genre as a substring
  of its genres, ignoring case, and a year that is present and at least the minimum year,
  the sampler fails with the error of the empty pool and returns no sequence.
\<close>

theorem sample_no_match:
  assumes "plain genre"
    and "\<not> genres_not_strings movies"
    and "\<forall>m \<in> set movies. \<not> (str_contains (ci_infix genre) (genres m) \<and> year_ge (year m) min_year)"
  shows "get_movies_by_genre_and_year engine rnd movies genre min_year n = Inl NoMatchError"
proof -
  from assms(3) have "genre_year_pool (ci_infix genre) min_year movies = []"
    by (simp add: genre_year_pool_def filter_empty_conv)
  with assms(1,2) show ?thesis
    by (simp add: get_movies_by_genre_and_year_def re_compile_plain Let_def)
qed

theorem sample_no_match_witness:
  "plain ''comedy''
   \<and> \<not> genres_not_strings example_movies
   \<and> genre_year_pool (ci_infix ''comedy'') 2000 example_movies = []
   \<and> get_movies_by_genre_and_year no_engine first_row example_movies ''comedy'' 2000 15
       = Inl NoMatchError"
proof -
  have "\<forall>m \<in> set example_movies.
          \<not> (str_contains (ci_infix ''comedy'') (genres m) \<and> year_ge (year m) 2000)"
    by (simp add: example_movies_eval year_ge_def)
  from sample_no_match [OF plain_comedy example_movies_strings this, of no_engine first_row 15]
  show ?thesis using plain_comedy example_movies_strings pool_comedy_2000 by simp
qed

text \<open>
  Claim C6 as stated fails in two ways. The genre is read as a regular expression: no
  catalog movie has \<open>Crime|Mystery\<close> as a substring of its genres, and the sampler returns
  a movie whose genres contain \<open>Crime\<close>. And on a catalog whose cells of genres are all
  missing no movie has the genre \<open>comedy\<close>, and the sampler fails with
  \<^verbatim>\<open>AttributeError\<close>, not with the error of the empty pool.
\<close>

theorem sample_no_match_counterexample:
  "genre_year_pool (ci_infix ''Crime|Mystery'') 1990 example_movies = []
   \<and> get_movies_by_genre_and_year no_engine first_row example_movies ''Crime|Mystery'' 1990 15 =
       Inr [\<lparr>movieId = 2, title = ''Heat (1995)'', genres = Some ''Action|Crime'', year = Some 1995\<rparr>]
   \<and> genre_year_pool (ci_infix ''comedy'') 1990 untagged_movies = []
   \<and> get_movies_by_genre_and_year no_engine first_row untagged_movies ''comedy'' 1990 15 =
       Inl AttributeError
   \<and> AttributeError \<noteq> NoMatchError"
  using pool_crime_or_mystery_literal sample_crime_or_mystery pool_untagged sample_untagged
  by simp

subsection \<open>Collecting ratings\<close>

lemma rating_loop_unfold:
  "length rows \<le> length ins \<Longrightarrow>
   rating_loop py_float rows ins user_ratings out =
     Inr (user_ratings @
            concat (map (\<lambda>(row, line).
                      case py_float line of
                        None \<Rightarrow> []
                      | Some r \<Rightarrow>
                          if float_ge r (1 / 2)
                          then [\<lparr>r_userId = 9999, r_movieId = movieId row, r_rating = r\<rparr>]
                          else [])
                    (zip rows ins)),
          out @
            concat (map (\<lambda>(row, line).
                      if py_float line = None then [prompt row, warning] else [prompt row])
                    (zip rows ins)))"
proof (induction rows arbitrary: ins user_ratings out)
  case Nil
  then show ?case by simp
next
  case (Cons row rows)
  from Cons.prems obtain line ins' where ins: "ins = line # ins'" and len: "length rows \<le> length ins'"
    by (cases ins) auto
  show ?case
    unfolding ins using Cons.IH [OF len] by (simp split: option.splits)
qed

lemma collect_example:
  "get_user_ratings example_float example_movies [''4.5'', ''abc'', ''0'', ''7''] =
     Inr ([\<lparr>r_userId = 9999, r_movieId = 1, r_rating = Finite (9 / 2)\<rparr>,
           \<lparr>r_userId = 9999, r_movieId = 4, r_rating = Finite 7\<rparr>],
          [header, prompt (example_movies ! 0), prompt (example_movies ! 1), warning,
           prompt (example_movies ! 2), prompt (example_movies ! 3)])"
  by (simp add: get_user_ratings_def example_float_def example_movies_eval)

lemma collect_short_input:
  "get_user_ratings example_float example_movies [''4.5'', ''abc''] = Inl EOFError"
  by (simp add: get_user_ratings_def example_float_def example_movies_eval)

text \<open>
  Claim C8. The claim bounds a recorded score by 5, as the message that \<^verbatim>\<open>get_user_ratings\<close>
  prints (\<open>0.5 to 5\<close>) and the rating scale of \<^verbatim>\<open>train_and_recommend\<close> (\<open>0.5\<close> to \<open>5.0\<close>) do.
  The loop tests \<^verbatim>\<open>rating >= 0.5\<close> only: the line \<open>7\<close> is read as the number 7, which is
  above 5, and a rating of 7 is recorded for the fourth candidate.
\<close>

theorem get_user_ratings_records_above_scale:
  "example_float ''7'' = Some (Finite 7)
   \<and> \<not> (7 :: real) \<le> 5
   \<and> get_user_ratings example_float example_movies [''4.5'', ''abc'', ''0'', ''7''] =
     Inr ([\<lparr>r_userId = 9999, r_movieId = 1, r_rating = Finite (9 / 2)\<rparr>,
           \<lparr>r_userId = 9999, r_movieId = 4, r_rating = Finite 7\<rparr>],
          [header, prompt (example_movies ! 0), prompt (example_movies ! 1), warning,
           prompt (example_movies ! 2), prompt (example_movies ! 3)])"
  using collect_example by (simp add: example_float_def)

text \<open>
  Claim C9, as amended. When there is a line of input for every candidate, the collector
  returns and does not raise. What it has written is the header and then, for every
  candidate in order, the prompt of the candidate, followed by the line
  \<open>Invalid input. Skipping.\<close> exactly when the line of the candidate is not read as a
  number; such a line adds no rating, and the candidates after it are prompted and rated
  as usual.
\<close>

theorem get_user_ratings_skips_invalid:
  assumes "length movie_sample \<le> length ins"
  shows "get_user_ratings py_float movie_sample ins =
           Inr (concat (map (\<lambda>(row, line).
                          case py_float line of
                            None \<Rightarrow> []
                          | Some r \<Rightarrow>
                              if float_ge r (1 / 2)
                              then [\<lparr>r_userId = 9999, r_movieId = movieId row, r_rating = r\<rparr>]
                              else [])
                        (zip movie_sample ins)),
                (CHR 0x0A # ''Please rate at least 5 movies (0.5 to 5). Enter 0 to skip.'') #
                concat (map (\<lambda>(row, line).
                          if py_float line = None
                          then [''Rating for '' @ [CHR 0x27] @ title row @ [CHR 0x27] @ '': '',
                                ''Invalid input. Skipping.'']
                          else [''Rating for '' @ [CHR 0x27] @ title row @ [CHR 0x27] @ '': ''])
                        (zip movie_sample ins)))"
  unfolding get_user_ratings_def rating_loop_unfold [OF assms] header_def prompt_def warning_def
  by simp

theorem get_user_ratings_skips_invalid_witness:
  "length (take 3 example_movies) \<le> length [''abc'', ''4.5'', []]
   \<and> example_float ''abc'' = None \<and> example_float [] = None
   \<and> get_user_ratings example_float (take 3 example_movies) [''abc'', ''4.5'', []] =
     Inr ([\<lparr>r_userId = 9999, r_movieId = 2, r_rating = Finite (9 / 2)\<rparr>],
          [CHR 0x0A # ''Please rate at least 5 movies (0.5 to 5). Enter 0 to skip.'',
           ''Rating for '' @ [CHR 0x27] @ ''Toy Story (1995)'' @ [CHR 0x27] @ '': '',
           ''Invalid input. Skipping.'',
           ''Rating for '' @ [CHR 0x27] @ ''Heat (1995)'' @ [CHR 0x27] @ '': '',
           ''Rating for '' @ [CHR 0x27] @ ''Clue (1985)'' @ [CHR 0x27] @ '': '',
           ''Invalid input. Skipping.''])"
proof -
  have l: "length (take 3 example_movies) \<le> length [''abc'', ''4.5'', []]"
    by (simp add: example_movies_eval)
  from get_user_ratings_skips_invalid [OF l, of example_float]
  show ?thesis using l by (simp add: example_float_def example_movies_eval)
qed

text \<open>
  Claim C9 as stated fails when the input ends before the candidates do: the loop catches
  \<^verbatim>\<open>ValueError\<close> only, and \<^verbatim>\<open>input\<close> raises \<^verbatim>\<open>EOFError\<close>. With four candidates and the two
  lines \<open>4.5\<close> and \<open>abc\<close>, the second of which is not a number, the collector raises at the
  third candidate and returns nothing, not even the rating it had recorded.
\<close>

theorem get_user_ratings_input_ends_counterexample:
  "length example_movies = 4
   \<and> example_float ''abc'' = None
   \<and> get_user_ratings example_float example_movies [''4.5'', ''abc''] = Inl EOFError"
  using collect_short_input by (simp add: example_float_def example_movies_eval)

end
